theory Spec2Isabelle
  imports Complex_Main "HOL-Library.AList" "HOL-Library.Log_Nat"
begin

section \<open>Numbers\<close>

text \<open>
  Every number of the program is a JavaScript number, an IEEE-754 binary64 value. Each
  arithmetic operator returns the exact result rounded to the nearest representable value.
  The model keeps numbers as reals and makes the rounding step explicit: every function
  that computes with \<open>+\<close>, \<open>-\<close>, \<open>*\<close> or \<open>/\<close> takes the rounding \<open>rnd\<close> as its first
  argument and applies it to the result of each operator. Two roundings are used:
  \<open>exact\<close> (no rounding, idealised arithmetic) and \<open>binary64\<close> (53 significant bits,
  ties to even). \<open>binary64\<close> is the rounding of the code for every result that is 0 or
  lies in the normal range of the doubles (from \<open>2^-1022\<close> to the largest double, below
  \<open>2^1024\<close>). Its exponent is unbounded: overflow to Infinity, subnormal results and NaN
  are outside the model. A theorem that bounds what binary64 arithmetic computes
  restricts its inputs so that every intermediate result stays in that range; the
  examples and counterexamples evaluate values in that range only.
  Comparisons, \<open>Math.abs\<close>, \<open>Math.floor\<close>, \<open>Math.round\<close> and \<open>%\<close> are exact in
  binary64 and carry no rounding.
\<close>

definition exact :: "real \<Rightarrow> real" where
  "exact x = x"

definition round_half_even :: "real \<Rightarrow> int" where
  "round_half_even x =
     (let f = \<lfloor>x\<rfloor>; r = x - of_int f
      in if r < 1 / 2 then f else if 1 / 2 < r then f + 1 else if even f then f else f + 1)"

text \<open>\<open>exponent2 x\<close> is the binary exponent of a non-zero \<open>x\<close>: the \<open>e\<close> with
  \<open>2^e \<le> |x| < 2^(e+1)\<close>.\<close>

definition exponent2 :: "real \<Rightarrow> int" where
  "exponent2 x =
     (if 1 \<le> \<bar>x\<bar> then bitlen \<lfloor>\<bar>x\<bar>\<rfloor> - 1 else - bitlen (\<lceil>1 / \<bar>x\<bar>\<rceil> - 1))"

definition binary64 :: "real \<Rightarrow> real" where
  "binary64 x =
     (if x = 0 then 0
      else let ulp = 2 powi (exponent2 x - 52)
           in of_int (round_half_even (x / ulp)) * ulp)"

text \<open>The unit roundoff of binary64: the relative error of one rounding is at most this.\<close>

definition unit_roundoff :: real where
  "unit_roundoff = 1 / 2 ^ 53"

text \<open>\<open>a % b\<close> for \<open>b \<noteq> 0\<close>: the remainder has the sign of the dividend.\<close>

definition js_trunc :: "real \<Rightarrow> int" where
  "js_trunc x = (if 0 \<le> x then \<lfloor>x\<rfloor> else \<lceil>x\<rceil>)"

definition js_rem :: "real \<Rightarrow> real \<Rightarrow> real" where
  "js_rem a b = a - b * of_int (js_trunc (a / b))"

definition Math_floor :: "real \<Rightarrow> int" where
  "Math_floor x = \<lfloor>x\<rfloor>"

text \<open>\<open>Math.round\<close> rounds to the nearest integer, a tie towards \<open>+\<infinity>\<close>.\<close>

definition Math_round :: "real \<Rightarrow> int" where
  "Math_round x = \<lfloor>x + 1 / 2\<rfloor>"

text \<open>\<open>x || 0\<close> on a number: \<open>0\<close> is the only falsy value the model has.\<close>

definition or_zero :: "real \<Rightarrow> real" where
  "or_zero x = (if x = 0 then 0 else x)"

text \<open>A template literal renders an integer in decimal.\<close>

fun show_nat :: "nat \<Rightarrow> string" where
  "show_nat n =
     (if n < 10 then [char_of (48 + n)]
      else show_nat (n div 10) @ [char_of (48 + n mod 10)])"

definition show_int :: "int \<Rightarrow> string" where
  "show_int i = (if i < 0 then CHR ''-'' # show_nat (nat (- i)) else show_nat (nat i))"

section \<open>Schema (shared/schema.ts)\<close>

text \<open>
  Object types are records. \<open>InsertShiftEmployee\<close> and \<open>ShiftEmployee\<close> extend the
  fields of \<open>ShiftEmployeeInput\<close> as the TypeScript types do, so a selector such as
  \<open>points\<close> reads all three. Field names that two unrelated types share, or that clash
  with a HOL constant, get a prefix: \<open>res_\<close> for result rows, \<open>sh_\<close> for a shift,
  \<open>in_\<close> for \<open>InsertShift\<close>, \<open>p_\<close> for \<open>Partial<InsertShift>\<close>, \<open>si_\<close> for
  \<open>ShiftInput\<close>, \<open>emp_\<close> for an employee; \<open>se_id\<close> is the \<open>id\<close> of a stored line.
  A timestamp is its time value in milliseconds.
\<close>

record ShiftEmployeeInput =
  employeeId :: int
  position :: string
  pointValue :: real
  clockIn :: string
  clockOut :: string
  hoursWorked :: real
  points :: real

record InsertShiftEmployee = ShiftEmployeeInput +
  digitalTips :: real
  cashTips :: real

record ShiftEmployee = InsertShiftEmployee +
  se_id :: int
  shiftId :: int

record Employee =
  emp_id :: int
  emp_employeeId :: int
  firstName :: string
  lastName :: string
  positions :: "string list"

record InsertEmployee =
  ie_employeeId :: int
  ie_firstName :: string
  ie_lastName :: string
  ie_positions :: "string list"

record Shift =
  sh_id :: int
  sh_date :: string
  sh_type :: string
  sh_creditCardTips :: real
  sh_houseTips :: real
  sh_cashTips :: real
  sh_createdAt :: int

record InsertShift =
  in_date :: string
  in_type :: string
  in_creditCardTips :: real
  in_houseTips :: real
  in_cashTips :: real

text \<open>\<open>Partial<InsertShift>\<close>: each key is present (\<open>Some\<close>) or absent (\<open>None\<close>).\<close>

record PartialInsertShift =
  p_date :: "string option"
  p_type :: "string option"
  p_creditCardTips :: "real option"
  p_houseTips :: "real option"
  p_cashTips :: "real option"

record ShiftInput =
  si_date :: string
  si_type :: string
  si_creditCardTips :: real
  si_houseTips :: real
  si_cashTips :: real
  si_employees :: "ShiftEmployeeInput list"

text \<open>The row both allocators build for one employee; the route and the storage add a name.\<close>

record TipResult =
  res_employeeId :: int
  res_position :: string
  res_hours :: real
  res_points :: real
  res_digitalTips :: real
  res_cashTips :: real

record TipDistributionResult = TipResult +
  res_name :: string

record ShiftResult =
  shift :: Shift
  results :: "TipDistributionResult list"

section \<open>Time calculator (calculateHoursWorked)\<close>

text \<open>
  The function parses \<open>2000-01-01T<clock>\<close> as a local date-time. The clock strings come
  from \<open><input type="time">\<close> fields, which yield \<open>HH:MM\<close>. \<open>parseTime\<close> returns the
  milliseconds since local midnight of the base date for such a string (the format also
  admits \<open>24:00\<close>, the end of the day); the common offset of both time values cancels in
  every comparison and subtraction the function makes. Any other string gives \<open>None\<close>:
  an invalid date, whose result is NaN, or a string the engine parses by rules of its own.
\<close>

definition digit :: "char \<Rightarrow> int option" where
  "digit c =
     (let n = (of_char c :: nat) in if 48 \<le> n \<and> n \<le> 57 then Some (int n - 48) else None)"

fun parseTime :: "string \<Rightarrow> int option" where
  "parseTime [h1, h2, sep, m1, m2] =
     (case (digit h1, digit h2, digit m1, digit m2) of
        (Some a, Some b, Some c, Some d) \<Rightarrow>
          (let hh = 10 * a + b; mm = 10 * c + d
           in if sep = CHR '':'' \<and> (hh \<le> 23 \<and> mm \<le> 59 \<or> hh = 24 \<and> mm = 0)
              then Some ((hh * 60 + mm) * 60000) else None)
      | _ \<Rightarrow> None)"
| "parseTime _ = None"

text \<open>
  The third argument is \<open>None\<close> when the caller passes no granularity; the parameter's
  default is 15. A caller that passes \<open>false\<close> (the edit page does) behaves as
  \<open>Some 0\<close>, since \<open>false > 0\<close> is false.
\<close>

definition calculateHoursWorked ::
  "(real \<Rightarrow> real) \<Rightarrow> string \<Rightarrow> string \<Rightarrow> real option \<Rightarrow> real option" where
  "calculateHoursWorked rnd clockIn' clockOut' roundingArg =
     (let roundingMinutes = (case roundingArg of None \<Rightarrow> 15 | Some g \<Rightarrow> g)
      in if clockIn' = [] \<or> clockOut' = [] then Some 0
         else case (parseTime clockIn', parseTime clockOut') of
           (Some inTime, Some outTime0) \<Rightarrow>
             (let outTime = (if outTime0 < inTime then outTime0 + 24 * 60 * 60 * 1000 else outTime0);
                  hoursWorked' = rnd (of_int (outTime - inTime) / (1000 * 60 * 60))
              in Some
                (if 0 < roundingMinutes then
                   (let fractionalHours = js_rem hoursWorked' 1;
                        fractionalMinutes = rnd (fractionalHours * 60);
                        roundedMinutes =
                          rnd (of_int (Math_round (rnd (fractionalMinutes / roundingMinutes)))
                               * roundingMinutes)
                    in rnd (of_int (Math_floor hoursWorked') + rnd (roundedMinutes / 60)))
                 else hoursWorked'))
         | _ \<Rightarrow> None)"

text \<open>
  The time calculator in the specification's words: raw hours are clock-out minus
  clock-in in hours, with 24 hours added to a clock-out that lies before the clock-in,
  and 0 when an input is empty; rounding splits the raw hours into the integer hours and
  the fraction, turns the fraction into minutes, rounds the minutes to the nearest
  multiple of the granularity (half up) and recombines. The rounding is stated on its
  own terms, in exact arithmetic: 5 minutes at a granularity of 10 are 10 minutes.
\<close>

definition spec_rawHours :: "(real \<Rightarrow> real) \<Rightarrow> string \<Rightarrow> string \<Rightarrow> real option" where
  "spec_rawHours rnd cin cout =
     (if cin = [] \<or> cout = [] then Some 0
      else case (parseTime cin, parseTime cout) of
        (Some i, Some out) \<Rightarrow>
          Some (rnd (of_int ((if out < i then out + 86400000 else out) - i) / 3600000))
      | _ \<Rightarrow> None)"

definition spec_roundHours :: "real \<Rightarrow> real \<Rightarrow> real" where
  "spec_roundHours g raw =
     (let whole = \<lfloor>raw\<rfloor>;
          minutes = (raw - of_int whole) * 60;
          multiples = \<lfloor>minutes / g + 1 / 2\<rfloor>
      in of_int whole + of_int multiples * g / 60)"

section \<open>Tip allocator (calculationUtils.ts)\<close>

record Validation =
  digital :: bool
  cash :: bool

record TipsOutcome =
  out_results :: "TipResult list"
  validation :: Validation

definition calculateTotalPoints :: "(real \<Rightarrow> real) \<Rightarrow> ('a ShiftEmployeeInput_scheme) list \<Rightarrow> real" where
  "calculateTotalPoints rnd employees =
     foldl (\<lambda>sum employee. rnd (sum + or_zero (points employee))) 0 employees"

definition calculateEmployeeTips ::
  "(real \<Rightarrow> real) \<Rightarrow> ShiftEmployeeInput list \<Rightarrow> real \<Rightarrow> real \<Rightarrow> TipsOutcome" where
  "calculateEmployeeTips rnd employees digitalTipsTotal cashTipsTotal =
     (let totalPoints = calculateTotalPoints rnd employees
      in if totalPoints = 0 then
           \<lparr>out_results = [], validation = \<lparr>digital = True, cash = True\<rparr>\<rparr>
         else
           (let rows = map (\<lambda>employee.
                  (let pointShare = rnd (points employee / totalPoints);
                       digitalTips' = rnd (digitalTipsTotal * pointShare);
                       cashTips' = rnd (cashTipsTotal * pointShare)
                   in \<lparr>res_employeeId = employeeId employee,
                       res_position = position employee,
                       res_hours = hoursWorked employee,
                       res_points = points employee,
                       res_digitalTips = digitalTips',
                       res_cashTips = cashTips'\<rparr>)) employees;
                distributedDigital = foldl (\<lambda>sum r. rnd (sum + res_digitalTips r)) 0 rows;
                distributedCash = foldl (\<lambda>sum r. rnd (sum + res_cashTips r)) 0 rows
            in \<lparr>out_results = rows,
                validation =
                  \<lparr>digital = (\<bar>rnd (digitalTipsTotal - distributedDigital)\<bar> < rnd (2 / 100)),
                   cash = (\<bar>rnd (cashTipsTotal - distributedCash)\<bar> < rnd (2 / 100))\<rparr>\<rparr>))"

section \<open>Storage (server/storage.ts)\<close>

text \<open>
  A JavaScript \<open>Map\<close> keeps its entries in insertion order: it is an association list.
  \<open>set\<close> is \<open>AList.update\<close> (an existing key keeps its place, a new key goes to the
  end), \<open>delete\<close> is \<open>AList.delete\<close>, \<open>get\<close> is \<open>map_of\<close>, and \<open>values()\<close> is
  \<open>map snd\<close>. The state holds the three maps the shift operations read or write and
  their counters; the maps of the restaurant name, the shift types and the positions are
  not touched by any operation below.
\<close>

record MemStorage =
  st_employees :: "(int \<times> Employee) list"
  st_shifts :: "(int \<times> Shift) list"
  st_shiftEmployees :: "(int \<times> ShiftEmployee) list"
  currentIds_employee :: int
  currentIds_shift :: int
  currentIds_shiftEmployee :: int

datatype error = Error string

definition emptyStorage :: MemStorage where
  "emptyStorage =
     \<lparr>st_employees = [], st_shifts = [], st_shiftEmployees = [],
      currentIds_employee = 1, currentIds_shift = 1, currentIds_shiftEmployee = 1\<rparr>"

definition getEmployees :: "MemStorage \<Rightarrow> Employee list" where
  "getEmployees s = map snd (st_employees s)"

definition getEmployeeByEmployeeId :: "MemStorage \<Rightarrow> int \<Rightarrow> Employee option" where
  "getEmployeeByEmployeeId s eid =
     find (\<lambda>employee. emp_employeeId employee = eid) (map snd (st_employees s))"

definition addEmployee :: "MemStorage \<Rightarrow> InsertEmployee \<Rightarrow> MemStorage \<times> Employee" where
  "addEmployee s employee =
     (let id' = currentIds_employee s;
          newEmployee =
            \<lparr>emp_id = id', emp_employeeId = ie_employeeId employee,
             firstName = ie_firstName employee, lastName = ie_lastName employee,
             positions = ie_positions employee\<rparr>
      in (s\<lparr>currentIds_employee := id' + 1,
            st_employees := AList.update id' newEmployee (st_employees s)\<rparr>,
          newEmployee))"

text \<open>The employees the constructor adds (\<open>initializeDefaultData\<close>).\<close>

definition defaultEmployees :: "InsertEmployee list" where
  "defaultEmployees =
     [\<lparr>ie_employeeId = 3, ie_firstName = ''Johnny'', ie_lastName = ''M'', ie_positions = [''Bartender'']\<rparr>,
      \<lparr>ie_employeeId = 15, ie_firstName = ''Harold'', ie_lastName = ''Z'', ie_positions = [''Server'']\<rparr>,
      \<lparr>ie_employeeId = 30, ie_firstName = ''Andrew'', ie_lastName = ''P'', ie_positions = [''Server'']\<rparr>,
      \<lparr>ie_employeeId = 21, ie_firstName = ''Drake'', ie_lastName = ''S'', ie_positions = [''Server'']\<rparr>,
      \<lparr>ie_employeeId = 4, ie_firstName = ''Nick'', ie_lastName = ''A'', ie_positions = [''Server'']\<rparr>,
      \<lparr>ie_employeeId = 36, ie_firstName = ''Diana'', ie_lastName = ''M'', ie_positions = [''Expo'']\<rparr>,
      \<lparr>ie_employeeId = 16, ie_firstName = ''Fred'', ie_lastName = ''P'', ie_positions = [''Runner'']\<rparr>,
      \<lparr>ie_employeeId = 29, ie_firstName = ''Deblyn'', ie_lastName = ''N'', ie_positions = [''Busser'']\<rparr>,
      \<lparr>ie_employeeId = 5, ie_firstName = ''Louis'', ie_lastName = ''C'', ie_positions = [''Busser'']\<rparr>]"

definition initialStorage :: MemStorage where
  "initialStorage = foldl (\<lambda>s employee. fst (addEmployee s employee)) emptyStorage defaultEmployees"

definition getShift :: "MemStorage \<Rightarrow> int \<Rightarrow> Shift option" where
  "getShift s id' = map_of (st_shifts s) id'"

definition getShiftEmployees :: "MemStorage \<Rightarrow> int \<Rightarrow> ShiftEmployee list" where
  "getShiftEmployees s shiftId' =
     filter (\<lambda>se. shiftId se = shiftId') (map snd (st_shiftEmployees s))"

text \<open>The stored line \<open>{...employeeData, id: seId, shiftId: id}\<close>.\<close>

definition toShiftEmployee :: "InsertShiftEmployee \<Rightarrow> int \<Rightarrow> int \<Rightarrow> ShiftEmployee" where
  "toShiftEmployee employeeData seId id' =
     \<lparr>employeeId = employeeId employeeData, position = position employeeData,
      pointValue = pointValue employeeData, clockIn = clockIn employeeData,
      clockOut = clockOut employeeData, hoursWorked = hoursWorked employeeData,
      points = points employeeData, digitalTips = digitalTips employeeData,
      cashTips = cashTips employeeData, se_id = seId, shiftId = id'\<rparr>"

text \<open>
  The loop that stores the lines of a shift and collects the result rows; \<open>addShift\<close>
  and \<open>updateShift\<close> contain the same loop.
\<close>

fun saveShiftEmployees ::
  "MemStorage \<Rightarrow> int \<Rightarrow> InsertShiftEmployee list \<Rightarrow> TipDistributionResult list
     \<Rightarrow> MemStorage \<times> TipDistributionResult list" where
  "saveShiftEmployees s id' [] acc = (s, acc)"
| "saveShiftEmployees s id' (employeeData # rest) acc =
     (let seId = currentIds_shiftEmployee s;
          s' = s\<lparr>currentIds_shiftEmployee := seId + 1,
                 st_shiftEmployees :=
                   AList.update seId (toShiftEmployee employeeData seId id') (st_shiftEmployees s)\<rparr>
      in saveShiftEmployees s' id' rest
           (case getEmployeeByEmployeeId s' (employeeId employeeData) of
              None \<Rightarrow> acc
            | Some employee \<Rightarrow>
                acc @ [\<lparr>res_employeeId = emp_employeeId employee,
                        res_position = position employeeData,
                        res_hours = hoursWorked employeeData,
                        res_points = points employeeData,
                        res_digitalTips = digitalTips employeeData,
                        res_cashTips = cashTips employeeData,
                        res_name = firstName employee @ '' '' @ lastName employee\<rparr>]))"

text \<open>\<open>timestamp\<close> is the value of \<open>new Date()\<close> at the call.\<close>

definition addShift ::
  "MemStorage \<Rightarrow> int \<Rightarrow> InsertShift \<Rightarrow> InsertShiftEmployee list \<Rightarrow> MemStorage \<times> ShiftResult" where
  "addShift s timestamp shiftData shiftEmployeesData =
     (let id' = currentIds_shift s;
          newShift =
            \<lparr>sh_id = id', sh_date = in_date shiftData, sh_type = in_type shiftData,
             sh_creditCardTips = in_creditCardTips shiftData,
             sh_houseTips = in_houseTips shiftData, sh_cashTips = in_cashTips shiftData,
             sh_createdAt = timestamp\<rparr>;
          s1 = s\<lparr>currentIds_shift := id' + 1,
                 st_shifts := AList.update id' newShift (st_shifts s)\<rparr>;
          saved = saveShiftEmployees s1 id' shiftEmployeesData []
      in (fst saved, \<lparr>shift = newShift, results = snd saved\<rparr>))"

text \<open>\<open>{...existingShift, ...shiftData}\<close>: a key present in \<open>shiftData\<close> wins.\<close>

definition mergeShift :: "Shift \<Rightarrow> PartialInsertShift \<Rightarrow> Shift" where
  "mergeShift existingShift shiftData =
     existingShift
       \<lparr>sh_date := (case p_date shiftData of None \<Rightarrow> sh_date existingShift | Some v \<Rightarrow> v),
        sh_type := (case p_type shiftData of None \<Rightarrow> sh_type existingShift | Some v \<Rightarrow> v),
        sh_creditCardTips :=
          (case p_creditCardTips shiftData of None \<Rightarrow> sh_creditCardTips existingShift | Some v \<Rightarrow> v),
        sh_houseTips :=
          (case p_houseTips shiftData of None \<Rightarrow> sh_houseTips existingShift | Some v \<Rightarrow> v),
        sh_cashTips :=
          (case p_cashTips shiftData of None \<Rightarrow> sh_cashTips existingShift | Some v \<Rightarrow> v)\<rparr>"

definition updateShift ::
  "MemStorage \<Rightarrow> int \<Rightarrow> PartialInsertShift \<Rightarrow> InsertShiftEmployee list
     \<Rightarrow> error + MemStorage \<times> ShiftResult" where
  "updateShift s id' shiftData shiftEmployeesData =
     (case map_of (st_shifts s) id' of
        None \<Rightarrow> Inl (Error (''Shift with id '' @ show_int id' @ '' not found''))
      | Some existingShift \<Rightarrow>
          (let updatedShift = mergeShift existingShift shiftData;
               s1 = s\<lparr>st_shifts := AList.update id' updatedShift (st_shifts s)\<rparr>;
               existingEmployees = getShiftEmployees s1 id';
               s2 = s1\<lparr>st_shiftEmployees :=
                         fold (\<lambda>employee m. AList.delete (se_id employee) m)
                           existingEmployees (st_shiftEmployees s1)\<rparr>;
               saved = saveShiftEmployees s2 id' shiftEmployeesData []
           in Inr (fst saved, \<lparr>shift = updatedShift, results = snd saved\<rparr>)))"

text \<open>
  \<open>deleteShift\<close> walks the entries of the line map and deletes each entry of the shift.
  Deleting the entry under the iterator does not disturb the walk, so the walk visits
  the entries the map had at the start.
\<close>

definition deleteShift :: "MemStorage \<Rightarrow> int \<Rightarrow> MemStorage" where
  "deleteShift s id' =
     (let s1 = s\<lparr>st_shifts := AList.delete id' (st_shifts s)\<rparr>
      in s1\<lparr>st_shiftEmployees :=
              fold (\<lambda>(seId, se) m. if shiftId se = id' then AList.delete seId m else m)
                (st_shiftEmployees s1) (st_shiftEmployees s1)\<rparr>)"

text \<open>
  Every key of the line map is the \<open>id\<close> of its line and lies below the counter, and no
  key occurs twice. The constructor establishes this and every operation keeps it.
\<close>

definition lines_inv :: "MemStorage \<Rightarrow> bool" where
  "lines_inv s \<longleftrightarrow>
     distinct (map fst (st_shiftEmployees s)) \<and>
     list_all (\<lambda>(k, se). se_id se = k \<and> k < currentIds_shiftEmployee s) (st_shiftEmployees s)"

text \<open>The lines as \<open>updateShift\<close> stores them, numbered from the counter \<open>c\<close>.\<close>

fun storedLines :: "int \<Rightarrow> int \<Rightarrow> InsertShiftEmployee list \<Rightarrow> ShiftEmployee list" where
  "storedLines id' c [] = []"
| "storedLines id' c (employeeData # rest) =
     toShiftEmployee employeeData c id' # storedLines id' (c + 1) rest"

section \<open>Routes (server/routes.ts)\<close>

text \<open>
  A route returns the JSON body it sends, or the status and message of an error reply.
  The request bodies are the objects the client pages send; \<open>parseFloat\<close> of a number is
  that number.
\<close>

definition calculateTips ::
  "(real \<Rightarrow> real) \<Rightarrow> MemStorage \<Rightarrow> ShiftInput \<Rightarrow> nat \<times> string + TipDistributionResult list" where
  "calculateTips rnd s shiftData =
     (let totalPoints = foldl (\<lambda>sum emp. rnd (sum + points emp)) 0 (si_employees shiftData)
      in if totalPoints = 0 then Inl (400, ''Total points cannot be zero'')
         else
           (let digitalTips' = rnd (si_creditCardTips shiftData + si_houseTips shiftData);
                cashTips' = si_cashTips shiftData;
                stored = getEmployees s
            in Inr (map (\<lambda>emp.
                 (let pointShare = rnd (points emp / totalPoints);
                      digitalTipShare = rnd (digitalTips' * pointShare);
                      cashTipShare = rnd (cashTips' * pointShare)
                  in \<lparr>res_employeeId = employeeId emp, res_position = position emp,
                      res_hours = hoursWorked emp, res_points = points emp,
                      res_digitalTips = digitalTipShare, res_cashTips = cashTipShare,
                      res_name =
                        (case find (\<lambda>e. emp_employeeId e = employeeId emp) stored of
                           Some employee \<Rightarrow> firstName employee @ '' '' @ lastName employee
                         | None \<Rightarrow> ''Employee #'' @ show_int (employeeId emp))\<rparr>))
                 (si_employees shiftData))))"

record UpdateBody =
  body_shift :: InsertShift
  body_employees :: "ShiftEmployeeInput list"

definition putShift ::
  "MemStorage \<Rightarrow> int \<Rightarrow> UpdateBody \<Rightarrow> MemStorage \<times> (nat \<times> string + ShiftResult)" where
  "putShift s id' body =
     (case getShift s id' of
        None \<Rightarrow> (s, Inl (404, ''Shift not found''))
      | Some existingShift \<Rightarrow>
          (let shiftData =
                 \<lparr>p_date = Some (in_date (body_shift body)),
                  p_type = Some (in_type (body_shift body)),
                  p_creditCardTips = Some (in_creditCardTips (body_shift body)),
                  p_houseTips = Some (in_houseTips (body_shift body)),
                  p_cashTips = Some (in_cashTips (body_shift body))\<rparr>;
               shiftEmployeesData = map (\<lambda>employee.
                 \<lparr>employeeId = employeeId employee, position = position employee,
                  pointValue = pointValue employee, clockIn = clockIn employee,
                  clockOut = clockOut employee, hoursWorked = hoursWorked employee,
                  points = points employee, digitalTips = 0, cashTips = 0\<rparr>)
                 (body_employees body)
           in case updateShift s id' shiftData shiftEmployeesData of
                Inl e \<Rightarrow> (s, Inl (500, ''Failed to update shift''))
              | Inr (s', updatedShift) \<Rightarrow> (s', Inr updatedShift)))"

section \<open>Example data\<close>

text \<open>
  A line of a one-hour shift whose point value, and so whose points, is \<open>pv\<close>; the same
  line with allocated amounts; a dinner shift with a digital pool of 100 and a cash pool
  of 20; the storage after the constructor and one \<open>addShift\<close> of that shift with two
  lines (points 3 and 1, holding the amounts 75/15 and 25/5); the shift record that
  \<open>addShift\<close> stored; and the metadata of an update.
\<close>

definition exampleLine :: "int \<Rightarrow> real \<Rightarrow> ShiftEmployeeInput" where
  "exampleLine eid pv =
     \<lparr>employeeId = eid, position = ''Server'', pointValue = pv, clockIn = ''12:00'',
      clockOut = ''13:00'', hoursWorked = 1, points = pv\<rparr>"

definition allocatedLine :: "int \<Rightarrow> real \<Rightarrow> real \<Rightarrow> real \<Rightarrow> InsertShiftEmployee" where
  "allocatedLine eid pv dt ct =
     \<lparr>employeeId = eid, position = ''Server'', pointValue = pv, clockIn = ''12:00'',
      clockOut = ''13:00'', hoursWorked = 1, points = pv, digitalTips = dt, cashTips = ct\<rparr>"

definition exampleShift :: InsertShift where
  "exampleShift =
     \<lparr>in_date = ''2024-05-01'', in_type = ''Dinner'', in_creditCardTips = 60,
      in_houseTips = 40, in_cashTips = 20\<rparr>"

definition savedStorage :: MemStorage where
  "savedStorage =
     fst (addShift initialStorage 1714600000000 exampleShift
            [allocatedLine 3 3 75 15, allocatedLine 15 1 25 5])"

definition savedShift :: Shift where
  "savedShift =
     \<lparr>sh_id = 1, sh_date = ''2024-05-01'', sh_type = ''Dinner'', sh_creditCardTips = 60,
      sh_houseTips = 40, sh_cashTips = 20, sh_createdAt = 1714600000000\<rparr>"

definition exampleUpdate :: PartialInsertShift where
  "exampleUpdate =
     \<lparr>p_date = Some ''2024-05-02'', p_type = Some ''Lunch'', p_creditCardTips = Some 80,
      p_houseTips = Some 0, p_cashTips = Some 10\<rparr>"

section \<open>Properties of the rounding\<close>

lemma binary64_zero: "binary64 0 = 0"
  by (simp add: binary64_def)

lemma exact_zero: "exact 0 = 0"
  by (simp add: exact_def)

lemma round_half_even_nonneg: "0 \<le> x \<Longrightarrow> 0 \<le> round_half_even x"
  by (auto simp: round_half_even_def Let_def)

lemma binary64_nonneg: "0 \<le> x \<Longrightarrow> 0 \<le> binary64 x"
proof -
  assume x: "0 \<le> x"
  have ulp: "0 < (2::real) powi k" for k
    by (simp add: zero_less_power_int)
  show ?thesis
    using x ulp round_half_even_nonneg [of "x / 2 powi (exponent2 x - 52)"]
    by (simp add: binary64_def Let_def)
qed

lemma exponent2_bounds:
  assumes "x \<noteq> 0"
  shows "2 powi (exponent2 x) \<le> \<bar>x\<bar> \<and> \<bar>x\<bar> < 2 powi (exponent2 x + 1)"
proof (cases "1 \<le> \<bar>x\<bar>")
  case True
  define n where "n = \<lfloor>\<bar>x\<bar>\<rfloor>"
  have n: "0 < n" using True by (simp add: n_def)
  have b: "1 \<le> bitlen n" using n bitlen_eq_zero_iff [of n] bitlen_nonneg [of n] by linarith
  from bitlen_bounds [OF n] have lo: "2 ^ nat (bitlen n - 1) \<le> n" and hi: "n < 2 ^ nat (bitlen n)"
    by auto
  have e: "exponent2 x = bitlen n - 1" using True by (simp add: exponent2_def n_def)
  have "real_of_int (2 ^ nat (bitlen n - 1)) \<le> real_of_int n" using lo by linarith
  also have "\<dots> \<le> \<bar>x\<bar>" by (simp add: n_def)
  finally have 1: "2 powi (exponent2 x) \<le> \<bar>x\<bar>"
    using b by (simp add: e power_int_def)
  have "n + 1 \<le> 2 ^ nat (bitlen n)" using hi by simp
  then have "real_of_int (n + 1) \<le> real_of_int (2 ^ nat (bitlen n))" by linarith
  moreover have "\<bar>x\<bar> < real_of_int (n + 1)" unfolding n_def by linarith
  ultimately have "\<bar>x\<bar> < 2 ^ nat (bitlen n)" by simp
  then have 2: "\<bar>x\<bar> < 2 powi (exponent2 x + 1)"
    using b by (simp add: e power_int_def)
  from 1 2 show ?thesis by simp
next
  case False
  define y where "y = 1 / \<bar>x\<bar>"
  have y: "1 < y" using False assms by (simp add: y_def)
  define m where "m = \<lceil>y\<rceil> - 1"
  have m: "0 < m" using y unfolding m_def by linarith
  have b: "1 \<le> bitlen m" using m bitlen_eq_zero_iff [of m] bitlen_nonneg [of m] by linarith
  from bitlen_bounds [OF m] have lo: "2 ^ nat (bitlen m - 1) \<le> m" and hi: "m < 2 ^ nat (bitlen m)"
    by auto
  have e: "exponent2 x = - bitlen m" using False by (simp add: exponent2_def m_def y_def)
  have "m + 1 \<le> 2 ^ nat (bitlen m)" using hi by simp
  then have "real_of_int (m + 1) \<le> real_of_int (2 ^ nat (bitlen m))" by linarith
  moreover have "y \<le> real_of_int (m + 1)" unfolding m_def by linarith
  ultimately have yhi: "y \<le> 2 ^ nat (bitlen m)" by simp
  have "(2::real) ^ nat (bitlen m - 1) = real_of_int (2 ^ nat (bitlen m - 1))" by simp
  also have "\<dots> \<le> real_of_int m" using lo by (simp only: of_int_le_iff)
  also have "\<dots> < y" unfolding m_def by linarith
  finally have ylo: "2 ^ nat (bitlen m - 1) < y" .
  have ax: "\<bar>x\<bar> = 1 / y" "0 < \<bar>x\<bar>" using assms by (simp_all add: y_def)
  have pw: "2 powi (- k) = 1 / (2::real) ^ nat k" if "0 \<le> k" for k
    using that by (simp add: power_int_minus power_int_nonneg_exp inverse_eq_divide)
  have p: "2 powi (- bitlen m) = 1 / (2::real) ^ nat (bitlen m)"
    using b by (intro pw) simp
  have "2 powi (- (bitlen m - 1)) = 1 / (2::real) ^ nat (bitlen m - 1)"
    using b by (intro pw) simp
  then have q: "2 powi (- bitlen m + 1) = 1 / (2::real) ^ nat (bitlen m - 1)"
    by simp
  have 1: "2 powi (exponent2 x) \<le> \<bar>x\<bar>"
    unfolding e p ax(1) using yhi y by (simp add: frac_le)
  have 2: "\<bar>x\<bar> < 2 powi (exponent2 x + 1)"
    unfolding e q ax(1) using ylo y by (simp add: frac_less2)
  from 1 2 show ?thesis by simp
qed

lemma or_zero_id: "or_zero x = x"
  by (simp add: or_zero_def)

lemma js_rem_one_nonneg: "0 \<le> x \<Longrightarrow> js_rem x 1 = x - of_int \<lfloor>x\<rfloor>"
  by (simp add: js_rem_def js_trunc_def)

lemma round_half_even_error: "\<bar>of_int (round_half_even x) - x\<bar> \<le> 1 / 2"
  unfolding round_half_even_def Let_def by (auto; linarith)

lemma binary64_half_ulp:
  "\<bar>binary64 x - x\<bar> \<le> 2 powi (exponent2 x - 53)"
proof (cases "x = 0")
  case True
  then show ?thesis by (simp add: binary64_def)
next
  case False
  define u :: real where "u = 2 powi (exponent2 x - 52)"
  have u: "0 < u" by (simp add: u_def zero_less_power_int)
  have "binary64 x - x = (of_int (round_half_even (x / u)) - x / u) * u"
    using False u by (simp add: binary64_def u_def [symmetric] Let_def field_simps)
  then have "\<bar>binary64 x - x\<bar> = \<bar>of_int (round_half_even (x / u)) - x / u\<bar> * u"
    using u by (simp add: abs_mult)
  also have "\<dots> \<le> (1 / 2) * u"
    using round_half_even_error [of "x / u"] u by (intro mult_right_mono) auto
  also have "\<dots> = 2 powi (exponent2 x - 53)"
  proof -
    have "u = 2 powi ((exponent2 x - 53) + 1)" unfolding u_def by simp
    also have "\<dots> = 2 powi (exponent2 x - 53) * 2" by (rule power_int_add_1) simp
    finally show ?thesis by simp
  qed
  finally show ?thesis .
qed

subsection \<open>Times of day and the rounded hours\<close>

lemma parseTime_range: "parseTime s = Some t \<Longrightarrow> 0 \<le> t \<and> t \<le> 86400000"
  by (cases s rule: parseTime.cases)
     (auto simp: digit_def Let_def split: option.splits if_splits)

lemma parseTime_nonempty: "parseTime s = Some t \<Longrightarrow> s \<noteq> []"
  by auto


subsection \<open>The relative error of a rounding and of a rounded sum\<close>

lemma binary64_relative_error: "\<bar>binary64 x - x\<bar> \<le> unit_roundoff * \<bar>x\<bar>"
proof (cases "x = 0")
  case True
  then show ?thesis by (simp add: binary64_zero)
next
  case False
  have "\<bar>binary64 x - x\<bar> \<le> 2 powi (exponent2 x - 53)" by (rule binary64_half_ulp)
  also have "\<dots> = 2 powi (exponent2 x) * unit_roundoff"
    by (simp add: power_int_diff unit_roundoff_def)
  also have "\<dots> \<le> \<bar>x\<bar> * unit_roundoff"
    using exponent2_bounds [OF False] by (intro mult_right_mono) (simp_all add: unit_roundoff_def)
  finally show ?thesis by (simp add: mult.commute)
qed

lemma binary64_bounds:
  assumes "0 \<le> x"
  shows "(1 - unit_roundoff) * x \<le> binary64 x" and "binary64 x \<le> (1 + unit_roundoff) * x"
  using binary64_relative_error [of x] assms by (simp_all add: algebra_simps abs_le_iff)

lemma unit_roundoff_range: "0 < unit_roundoff" "unit_roundoff < 1"
  by (simp_all add: unit_roundoff_def)

lemma fold_sum_bounds:
  assumes "0 \<le> s" and "\<forall>x \<in> set xs. 0 \<le> f x"
  shows "(1 - unit_roundoff) ^ length xs * (s + sum_list (map f xs))
           \<le> foldl (\<lambda>sum x. binary64 (sum + f x)) s xs \<and>
         foldl (\<lambda>sum x. binary64 (sum + f x)) s xs
           \<le> (1 + unit_roundoff) ^ length xs * (s + sum_list (map f xs))"
  using assms
proof (induction xs arbitrary: s)
  case Nil
  then show ?case by simp
next
  case (Cons x xs)
  let ?u = unit_roundoff
  let ?s' = "binary64 (s + f x)"
  let ?r = "sum_list (map f xs)"
  let ?F = "foldl (\<lambda>sum x. binary64 (sum + f x)) ?s' xs"
  have fx: "0 \<le> f x" and rest: "\<forall>y \<in> set xs. 0 \<le> f y" using Cons.prems by simp_all
  have r: "0 \<le> ?r" using rest by (intro sum_list_nonneg) auto
  have sx: "0 \<le> s + f x" using Cons.prems(1) fx by simp
  have s': "0 \<le> ?s'" using sx by (rule binary64_nonneg)
  note b = binary64_bounds [OF sx]
  note ih = Cons.IH [OF s' rest]
  have lo1: "0 \<le> (1 - ?u) ^ length xs" and hi1: "0 \<le> (1 + ?u) ^ length xs"
    using unit_roundoff_range by simp_all
  have "(1 - ?u) ^ length (x # xs) * (s + sum_list (map f (x # xs)))
      = (1 - ?u) ^ length xs * ((1 - ?u) * (s + f x) + (1 - ?u) * ?r)"
    by (simp add: algebra_simps)
  also have "\<dots> \<le> (1 - ?u) ^ length xs * (?s' + ?r)"
  proof (intro mult_left_mono lo1 add_mono b(1))
    show "(1 - ?u) * ?r \<le> ?r" using r unit_roundoff_range by (simp add: mult_left_le_one_le)
  qed
  also have "\<dots> \<le> ?F" using ih by simp
  finally have lo: "(1 - ?u) ^ length (x # xs) * (s + sum_list (map f (x # xs))) \<le> ?F" .
  have "?F \<le> (1 + ?u) ^ length xs * (?s' + ?r)" using ih by simp
  also have "\<dots> \<le> (1 + ?u) ^ length xs * ((1 + ?u) * (s + f x) + (1 + ?u) * ?r)"
  proof (intro mult_left_mono hi1 add_mono b(2))
    show "?r \<le> (1 + ?u) * ?r" using r unit_roundoff_range by (simp add: mult_le_cancel_right1)
  qed
  also have "\<dots> = (1 + ?u) ^ length (x # xs) * (s + sum_list (map f (x # xs)))"
    by (simp add: algebra_simps)
  finally have hi: "?F \<le> (1 + ?u) ^ length (x # xs) * (s + sum_list (map f (x # xs)))" .
  show ?case using lo hi by simp
qed

lemma product_le_one: "((1 + unit_roundoff) * (1 - unit_roundoff)) ^ k \<le> 1"
proof -
  have "(1 + unit_roundoff) * (1 - unit_roundoff) = 1 - unit_roundoff\<^sup>2"
    by (simp add: algebra_simps power2_eq_square)
  moreover have "0 \<le> 1 - unit_roundoff\<^sup>2"
    using unit_roundoff_range by (simp add: power2_eq_square mult_le_one)
  moreover have "1 - unit_roundoff\<^sup>2 \<le> 1" by simp
  ultimately show ?thesis by (simp add: power_le_one)
qed

lemma up_le_inverse_down: "(1 + unit_roundoff) ^ k \<le> 1 / (1 - unit_roundoff) ^ k"
proof -
  have p: "0 < (1 - unit_roundoff) ^ k" using unit_roundoff_range by simp
  have "(1 + unit_roundoff) ^ k * (1 - unit_roundoff) ^ k \<le> 1"
    using product_le_one [of k] by (simp add: power_mult_distrib)
  then show ?thesis using p by (simp add: pos_le_divide_eq)
qed

lemma down_power_bound:
  assumes "k \<le> 2002"
  shows "1 - 2002 * unit_roundoff \<le> (1 - unit_roundoff) ^ k"
proof -
  have "1 + real k * (- unit_roundoff) \<le> (1 + (- unit_roundoff)) ^ k"
    using unit_roundoff_range by (intro Bernoulli_inequality) simp
  moreover have "real k * unit_roundoff \<le> 2002 * unit_roundoff"
    using assms unit_roundoff_range by (intro mult_right_mono) simp_all
  ultimately show ?thesis by simp
qed

section \<open>Time calculator: claims\<close>

subsection \<open>C6: a granularity of 0, and no granularity\<close>

text \<open>
  C6 (as amended). With a granularity of 0 \<open>calculateHoursWorked\<close> returns the raw hours
  unmodified. With the granularity argument absent the parameter's default of 15 minutes
  applies: the result is that of a granularity of 15.
\<close>

theorem zero_granularity_returns_raw_hours:
  "calculateHoursWorked rnd cin cout (Some 0) = spec_rawHours rnd cin cout \<and>
   calculateHoursWorked rnd cin cout None = calculateHoursWorked rnd cin cout (Some 15)"
  by (simp add: calculateHoursWorked_def spec_rawHours_def Let_def split: option.splits)

text \<open>
  C6 as stated fails: from 09:00 to 16:07 with no granularity given, the result is not
  the raw 7 hours 7 minutes (it is 7).
\<close>

theorem absent_granularity_counterexample:
  "calculateHoursWorked binary64 ''09:00'' ''16:07'' None
     \<noteq> spec_rawHours binary64 ''09:00'' ''16:07''"
  by code_simp

theorem zero_granularity_witness:
  "calculateHoursWorked binary64 ''09:00'' ''16:07'' (Some 0)
     = spec_rawHours binary64 ''09:00'' ''16:07'' \<and>
   calculateHoursWorked binary64 ''09:00'' ''16:07'' None
     = calculateHoursWorked binary64 ''09:00'' ''16:07'' (Some 15)"
  by (rule zero_granularity_returns_raw_hours)

lemma raw_diff_nonneg:
  assumes "parseTime cin = Some i" "parseTime cout = Some out"
  shows "0 \<le> (if out < i then out + 86400000 else out) - i"
  using parseTime_range [OF assms(1)] parseTime_range [OF assms(2)] by auto


lemma calculateHoursWorked_parsed:
  assumes "parseTime cin = Some i" "parseTime cout = Some out"
  shows "calculateHoursWorked rnd cin cout r =
      (let g = (case r of None \<Rightarrow> 15 | Some g \<Rightarrow> g);
           hw = rnd (of_int ((if out < i then out + 86400000 else out) - i) / 3600000)
       in Some (if 0 < g then
             rnd (of_int (Math_floor hw)
               + rnd (rnd (of_int (Math_round (rnd (rnd (js_rem hw 1 * 60) / g))) * g) / 60))
           else hw))"
  using assms parseTime_nonempty [OF assms(1)] parseTime_nonempty [OF assms(2)]
  by (simp add: calculateHoursWorked_def Let_def)

subsection \<open>C7: a shift past midnight\<close>





subsection \<open>C8: rounding to a granularity\<close>

text \<open>
  In exact arithmetic the function is the specification's rounding of the raw hours.
\<close>

lemma exact_raw_hours_nonneg:
  assumes "parseTime cin = Some i" "parseTime cout = Some out"
  shows "0 \<le> exact (of_int ((if out < i then out + 86400000 else out) - i) / 3600000)"
  using raw_diff_nonneg [OF assms] by (simp add: exact_def)

lemma exact_rounding_follows_spec:
  assumes "0 < g"
  shows "calculateHoursWorked exact cin cout (Some g)
           = map_option (spec_roundHours g) (spec_rawHours exact cin cout)"
proof (cases "cin = [] \<or> cout = []")
  case True
  then show ?thesis
    by (auto simp: calculateHoursWorked_def spec_rawHours_def spec_roundHours_def)
next
  case ne: False
  show ?thesis
  proof (cases "parseTime cin")
    case None
    then show ?thesis using ne by (simp add: calculateHoursWorked_def spec_rawHours_def)
  next
    case (Some i)
    note pin = this
    show ?thesis
    proof (cases "parseTime cout")
      case None
      then show ?thesis using ne pin by (simp add: calculateHoursWorked_def spec_rawHours_def)
    next
      case (Some out)
      define hw where "hw = exact (of_int ((if out < i then out + 86400000 else out) - i) / 3600000)"
      have hw: "0 \<le> hw" unfolding hw_def by (rule exact_raw_hours_nonneg [OF pin Some])
      have raw: "spec_rawHours exact cin cout = Some hw"
        using ne pin Some by (simp add: spec_rawHours_def hw_def)
      have "calculateHoursWorked exact cin cout (Some g)
          = Some (exact (of_int (Math_floor hw)
             + exact (exact (of_int (Math_round (exact (exact (js_rem hw 1 * 60) / g))) * g) / 60)))"
        using assms by (simp add: calculateHoursWorked_parsed [OF pin Some] Let_def hw_def)
      also have "\<dots> = Some (spec_roundHours g hw)"
        by (simp add: spec_roundHours_def Let_def js_rem_one_nonneg [OF hw] Math_floor_def
            Math_round_def exact_def)
      finally show ?thesis by (simp add: raw)
    qed
  qed
qed

text \<open>
  C8 does not hold of the code. The minutes the code rounds are computed in binary64
  arithmetic from the rounded quotient of the raw hours, so a duration on an exact tie
  can fall below the half. From 09:00 to 16:05 (7 hours 5 minutes) with a granularity of
  10 the code returns 7 hours, where rounding 5 minutes half up to the nearest multiple
  of 10 gives 7 hours 10 minutes. From 00:00 to 00:05 the code rounds the same 5 minutes
  up, to 10 minutes, although the raw hours it has computed there lie below a twelfth of
  an hour and the specification's rounding of that number gives 0: the code follows the
  specification's rounding neither of the duration nor of the raw hours it computes.
  The example of the claim holds: 7 hours 7 minutes with a granularity of 15 give
  exactly 7.
\<close>

theorem rounding_misses_tie:
  "calculateHoursWorked binary64 ''09:00'' ''16:05'' (Some 10) = Some 7 \<and>
   map_option (spec_roundHours 10) (spec_rawHours exact ''09:00'' ''16:05'') = Some (43 / 6) \<and>
   calculateHoursWorked binary64 ''00:00'' ''00:05'' (Some 10) = Some (binary64 (1 / 6)) \<and>
   map_option (spec_roundHours 10) (spec_rawHours binary64 ''00:00'' ''00:05'') = Some 0 \<and>
   calculateHoursWorked binary64 ''09:00'' ''16:07'' (Some 15) = Some 7"
  by code_simp

section \<open>Tip allocator: claims\<close>

lemma route_total_points:
  "foldl (\<lambda>sum emp. rnd (sum + points emp)) 0 employees = calculateTotalPoints rnd employees"
  by (simp add: calculateTotalPoints_def or_zero_id)

subsection \<open>C1: total points of 0\<close>

text \<open>
  C1 (as amended). When the points of the lines sum to 0, \<open>calculateEmployeeTips\<close>
  divides nothing: it returns an empty result set, with both validation flags set to
  true; the calculate-tips route rejects the request with status 400 and the message
  ``Total points cannot be zero''.
\<close>

theorem zero_points_outcome:
  assumes "calculateTotalPoints rnd employees = 0"
  shows "calculateEmployeeTips rnd employees d c
           = \<lparr>out_results = [], validation = \<lparr>digital = True, cash = True\<rparr>\<rparr> \<and>
         calculateTips rnd s (shiftData\<lparr>si_employees := employees\<rparr>)
           = Inl (400, ''Total points cannot be zero'')"
  using assms by (simp add: calculateEmployeeTips_def calculateTips_def route_total_points)

text \<open>
  C1 as stated fails: for one line with 0 points and pools of 100 and 20 the validation
  outcome is flagged valid for both pools.
\<close>

theorem zero_points_reported_valid_counterexample:
  "calculateTotalPoints binary64 [exampleLine 3 0] = 0 \<and>
   digital (validation (calculateEmployeeTips binary64 [exampleLine 3 0] 100 20)) \<and>
   cash (validation (calculateEmployeeTips binary64 [exampleLine 3 0] 100 20))"
  by code_simp

lemma total_points_zero_line: "calculateTotalPoints binary64 [exampleLine 3 0] = 0"
  by code_simp

theorem zero_points_outcome_witness:
  "calculateTotalPoints binary64 [exampleLine 3 0] = 0 \<and>
   calculateEmployeeTips binary64 [exampleLine 3 0] 100 20
     = \<lparr>out_results = [], validation = \<lparr>digital = True, cash = True\<rparr>\<rparr> \<and>
   calculateTips binary64 initialStorage
       (\<lparr>si_date = ''2024-05-01'', si_type = ''Dinner'', si_creditCardTips = 60,
         si_houseTips = 40, si_cashTips = 20, si_employees = []\<rparr>
        \<lparr>si_employees := [exampleLine 3 0]\<rparr>)
     = Inl (400, ''Total points cannot be zero'')"
  using total_points_zero_line
    zero_points_outcome [OF total_points_zero_line, of 100 20 initialStorage
      "\<lparr>si_date = ''2024-05-01'', si_type = ''Dinner'', si_creditCardTips = 60,
         si_houseTips = 40, si_cashTips = 20, si_employees = []\<rparr>"]
  by blast

subsection \<open>Rows, totals and examples\<close>



lemma foldl_exact_sum:
  "foldl (\<lambda>sum x. exact (sum + f x)) a xs = a + sum_list (map f xs)"
  by (induction xs arbitrary: a) (simp_all add: exact_def)

lemma total_points_exact: "calculateTotalPoints exact employees = sum_list (map points employees)"
  by (simp add: calculateTotalPoints_def or_zero_id foldl_exact_sum)








subsection \<open>C2: proportional allocation\<close>



lemma sum_list_shares:
  "sum_list (map (\<lambda>e. p * (f e / t)) es) = p * (sum_list (map f es) / (t::real))"
  by (induction es) (simp_all add: distrib_left add_divide_distrib)

lemma exact_allocation_sums:
  assumes "calculateTotalPoints exact employees \<noteq> 0"
  shows "sum_list (map res_digitalTips (out_results (calculateEmployeeTips exact employees d c))) = d"
    and "sum_list (map res_cashTips (out_results (calculateEmployeeTips exact employees d c))) = c"
proof -
  let ?t = "calculateTotalPoints exact employees"
  have t: "sum_list (map points employees) = ?t" by (simp add: total_points_exact)
  have "sum_list (map res_digitalTips (out_results (calculateEmployeeTips exact employees d c)))
      = sum_list (map (\<lambda>e. d * (points e / ?t)) employees)"
    using assms by (simp add: calculateEmployeeTips_def Let_def exact_def comp_def)
  also have "\<dots> = d" unfolding sum_list_shares t using assms by simp
  finally show "sum_list (map res_digitalTips (out_results (calculateEmployeeTips exact employees d c))) = d" .
  have "sum_list (map res_cashTips (out_results (calculateEmployeeTips exact employees d c)))
      = sum_list (map (\<lambda>e. c * (points e / ?t)) employees)"
    using assms by (simp add: calculateEmployeeTips_def Let_def exact_def comp_def)
  also have "\<dots> = c" unfolding sum_list_shares t using assms by simp
  finally show "sum_list (map res_cashTips (out_results (calculateEmployeeTips exact employees d c))) = c" .
qed

lemma validation_flags:
  assumes "calculateTotalPoints rnd employees \<noteq> 0"
  shows "digital (validation (calculateEmployeeTips rnd employees d c))
           = (\<bar>rnd (d - foldl (\<lambda>sum r. rnd (sum + res_digitalTips r)) 0
                 (out_results (calculateEmployeeTips rnd employees d c)))\<bar> < rnd (2 / 100))"
    and "cash (validation (calculateEmployeeTips rnd employees d c))
           = (\<bar>rnd (c - foldl (\<lambda>sum r. rnd (sum + res_cashTips r)) 0
                 (out_results (calculateEmployeeTips rnd employees d c)))\<bar> < rnd (2 / 100))"
  using assms by (simp_all add: calculateEmployeeTips_def Let_def)

subsection \<open>The allocated amounts in exact and in binary64 arithmetic\<close>

lemma exact_allocation_valid:
  assumes "calculateTotalPoints exact employees \<noteq> 0"
  shows "validation (calculateEmployeeTips exact employees d c) = \<lparr>digital = True, cash = True\<rparr>"
proof -
  have fd: "foldl (\<lambda>sum r. exact (sum + res_digitalTips r)) 0
               (out_results (calculateEmployeeTips exact employees d c)) = d"
    using exact_allocation_sums(1) [OF assms] by (simp add: foldl_exact_sum)
  have fc: "foldl (\<lambda>sum r. exact (sum + res_cashTips r)) 0
               (out_results (calculateEmployeeTips exact employees d c)) = c"
    using exact_allocation_sums(2) [OF assms] by (simp add: foldl_exact_sum)
  have "digital (validation (calculateEmployeeTips exact employees d c))"
    unfolding validation_flags(1) [OF assms] fd by (simp add: exact_def)
  moreover have "cash (validation (calculateEmployeeTips exact employees d c))"
    unfolding validation_flags(2) [OF assms] fc by (simp add: exact_def)
  ultimately show ?thesis by (cases "validation (calculateEmployeeTips exact employees d c)") simp
qed

lemma share_bounds:
  assumes "0 \<le> p" and "0 < t" and "0 \<le> d"
  shows "(1 - unit_roundoff)\<^sup>2 * (d * (p / t)) \<le> binary64 (d * binary64 (p / t))"
    and "binary64 (d * binary64 (p / t)) \<le> (1 + unit_roundoff)\<^sup>2 * (d * (p / t))"
    and "0 \<le> binary64 (d * binary64 (p / t))"
proof -
  let ?u = unit_roundoff
  have x: "0 \<le> p / t" using assms by simp
  have fx: "0 \<le> binary64 (p / t)" using x by (rule binary64_nonneg)
  have y: "0 \<le> d * binary64 (p / t)" using assms(3) fx by simp
  note bx = binary64_bounds [OF x]
  note by' = binary64_bounds [OF y]
  have w: "0 \<le> 1 - ?u" and v: "0 \<le> 1 + ?u" using unit_roundoff_range by simp_all
  have "(1 - ?u)\<^sup>2 * (d * (p / t)) = (1 - ?u) * (d * ((1 - ?u) * (p / t)))"
    by (simp only: power2_eq_square mult_ac)
  also have "\<dots> \<le> (1 - ?u) * (d * binary64 (p / t))"
    using bx(1) assms(3) w by (intro mult_left_mono) simp_all
  also have "\<dots> \<le> binary64 (d * binary64 (p / t))" by (rule by'(1))
  finally show "(1 - ?u)\<^sup>2 * (d * (p / t)) \<le> binary64 (d * binary64 (p / t))" .
  have "binary64 (d * binary64 (p / t)) \<le> (1 + ?u) * (d * binary64 (p / t))" by (rule by'(2))
  also have "\<dots> \<le> (1 + ?u) * (d * ((1 + ?u) * (p / t)))"
    using bx(2) assms(3) v by (intro mult_left_mono) simp_all
  also have "\<dots> = (1 + ?u)\<^sup>2 * (d * (p / t))"
    by (simp only: power2_eq_square mult_ac)
  finally show "binary64 (d * binary64 (p / t)) \<le> (1 + ?u)\<^sup>2 * (d * (p / t))" .
  show "0 \<le> binary64 (d * binary64 (p / t))" using y by (rule binary64_nonneg)
qed

lemma total_points_bounds:
  assumes "\<forall>e \<in> set es. 0 \<le> points e"
  shows "(1 - unit_roundoff) ^ length es * sum_list (map points es)
           \<le> calculateTotalPoints binary64 es"
    and "calculateTotalPoints binary64 es
           \<le> (1 + unit_roundoff) ^ length es * sum_list (map points es)"
  using fold_sum_bounds [of 0 es points] assms
  by (simp_all add: calculateTotalPoints_def or_zero_id)








subsection \<open>The domain of the bound\<close>

text \<open>
  The bound is proved for at most 1000 lines whose points are 0 or lie between 10^-6 and
  10^6, and pools that are 0 or lie between 0.01 and 10^9. There the total lies between
  10^-7 and 2 * 10^9 and every allocated amount is 0 or lies between 10^-19 and 10^23:
  the quotients, products and sums of the allocation stay in the normal range of the
  doubles, where \<open>binary64\<close> is the rounding of the code.
\<close>

lemma domain_points:
  assumes "list_all (\<lambda>e. points e = 0 \<or> 1 / 10 ^ 6 \<le> points e \<and> points e \<le> 10 ^ 6) employees"
  shows "\<forall>e \<in> set employees. 0 \<le> points e"
    and "\<forall>e \<in> set employees. points e \<le> 10 ^ 6"
    and "\<forall>e \<in> set employees. points e = 0 \<or> 1 / 10 ^ 6 \<le> points e"
  using assms by (auto simp: list_all_iff)

lemma sum_list_upper:
  "\<forall>x \<in> set xs. f x \<le> (b::real) \<Longrightarrow> sum_list (map f xs) \<le> real (length xs) * b"
  by (induction xs) (simp_all add: algebra_simps)

lemma sum_list_lower:
  "\<forall>x \<in> set xs. f x = 0 \<or> (b::real) \<le> f x \<Longrightarrow> 0 < b \<Longrightarrow>
     sum_list (map f xs) = 0 \<or> b \<le> sum_list (map f xs)"
  by (induction xs) auto

lemma bounded_total_range:
  assumes T: "0 < calculateTotalPoints binary64 employees"
    and len: "length employees \<le> 1000"
    and dom: "list_all (\<lambda>e. points e = 0 \<or> 1 / 10 ^ 6 \<le> points e \<and> points e \<le> 10 ^ 6) employees"
  shows "1 / 10 ^ 7 \<le> calculateTotalPoints binary64 employees"
    and "calculateTotalPoints binary64 employees \<le> 2 * 10 ^ 9"
proof -
  let ?T = "calculateTotalPoints binary64 employees"
  let ?P = "sum_list (map points employees)"
  let ?n = "length employees"
  let ?m = "1 - 2002 * unit_roundoff"
  note p = domain_points [OF dom]
  note tb = total_points_bounds [OF p(1)]
  have m: "0 < ?m" "9 / 10 \<le> ?m" by (simp_all add: unit_roundoff_def)
  have n: "?n \<le> 2002" using len by simp
  have w: "?m \<le> (1 - unit_roundoff) ^ ?n" by (rule down_power_bound [OF n])
  have wpos: "0 < (1 - unit_roundoff) ^ ?n" using unit_roundoff_range by simp
  have v: "(1 + unit_roundoff) ^ ?n \<le> 1 / ?m"
  proof -
    have "(1 + unit_roundoff) ^ ?n \<le> 1 / (1 - unit_roundoff) ^ ?n" by (rule up_le_inverse_down)
    also have "\<dots> \<le> 1 / ?m" using w m(1) wpos by (simp add: frac_le)
    finally show ?thesis .
  qed
  have vpos: "0 < (1 + unit_roundoff) ^ ?n" using unit_roundoff_range by simp
  have P0: "0 < ?P"
  proof (rule ccontr)
    assume "\<not> 0 < ?P"
    then have "(1 + unit_roundoff) ^ ?n * ?P \<le> 0" using vpos by (simp add: mult_nonneg_nonpos)
    then show False using tb(2) T by simp
  qed
  have Plo: "1 / 10 ^ 6 \<le> ?P" using sum_list_lower [OF p(3)] P0 by auto
  have "?P \<le> real ?n * 10 ^ 6" by (rule sum_list_upper [OF p(2)])
  also have "\<dots> \<le> 1000 * 10 ^ 6" using len by simp
  finally have Phi: "?P \<le> 10 ^ 9" by simp
  have "1 / 10 ^ 7 \<le> ?m * (1 / 10 ^ 6)" using m(2) by simp
  also have "\<dots> \<le> (1 - unit_roundoff) ^ ?n * ?P"
    using w Plo m(1) by (intro mult_mono) simp_all
  also have "\<dots> \<le> ?T" by (rule tb(1))
  finally show "1 / 10 ^ 7 \<le> ?T" .
  have "?T \<le> (1 + unit_roundoff) ^ ?n * ?P" by (rule tb(2))
  also have "\<dots> \<le> (1 / ?m) * 10 ^ 9"
    using v Phi P0 m(1) by (intro mult_mono) simp_all
  also have "\<dots> \<le> 2 * 10 ^ 9" using m by (simp add: field_simps)
  finally show "?T \<le> 2 * 10 ^ 9" .
qed

lemma domain_pool:
  "d = 0 \<or> 1 / 100 \<le> d \<and> d \<le> 10 ^ 9 \<Longrightarrow> 0 \<le> d \<and> d \<le> (10::real) ^ 9"
  by auto

lemma bounded_amount_range:
  assumes T: "0 < calculateTotalPoints binary64 employees"
    and len: "length employees \<le> 1000"
    and dom: "list_all (\<lambda>e. points e = 0 \<or> 1 / 10 ^ 6 \<le> points e \<and> points e \<le> 10 ^ 6) employees"
    and d: "d = 0 \<or> 1 / 100 \<le> d \<and> d \<le> 10 ^ 9"
    and e: "e \<in> set employees"
  shows "binary64 (d * binary64 (points e / calculateTotalPoints binary64 employees)) = 0 \<or>
         1 / 10 ^ 19 \<le> binary64 (d * binary64 (points e / calculateTotalPoints binary64 employees)) \<and>
         binary64 (d * binary64 (points e / calculateTotalPoints binary64 employees)) \<le> 10 ^ 23"
proof (cases "d = 0 \<or> points e = 0")
  case True
  then show ?thesis by (auto simp: binary64_zero)
next
  case False
  let ?T = "calculateTotalPoints binary64 employees"
  let ?p = "points e"
  let ?u = unit_roundoff
  note tr = bounded_total_range [OF T len dom]
  from False d have dr: "1 / 100 \<le> d" "d \<le> 10 ^ 9" by auto
  from False e domain_points(3) [OF dom] domain_points(2) [OF dom]
  have pr: "1 / 10 ^ 6 \<le> ?p" "?p \<le> 10 ^ 6" by auto
  have p0: "0 \<le> ?p" using pr(1) by simp
  have d0: "0 \<le> d" using dr(1) by simp
  note sb = share_bounds [OF p0 T d0]
  have qlo: "1 / (2 * 10 ^ 15) \<le> ?p / ?T"
  proof -
    have "1 / (2 * 10 ^ 15) = (1 / 10 ^ 6) / (2 * 10 ^ 9 :: real)" by simp
    also have "\<dots> \<le> ?p / ?T" using pr(1) tr(2) T by (intro frac_le) simp_all
    finally show ?thesis .
  qed
  have qhi: "?p / ?T \<le> 10 ^ 13"
  proof -
    have "?p / ?T \<le> 10 ^ 6 / (1 / 10 ^ 7)" using pr(2) tr(1) p0 by (intro frac_le) simp_all
    also have "\<dots> = 10 ^ 13" by simp
    finally show ?thesis .
  qed
  have q0: "0 \<le> ?p / ?T" using p0 T by simp
  have xlo: "1 / (2 * 10 ^ 17) \<le> d * (?p / ?T)"
  proof -
    have "1 / (2 * 10 ^ 17) = (1 / 100) * (1 / (2 * 10 ^ 15 :: real))" by simp
    also have "\<dots> \<le> d * (?p / ?T)" using dr(1) qlo by (intro mult_mono) simp_all
    finally show ?thesis .
  qed
  have xhi: "d * (?p / ?T) \<le> 10 ^ 22"
  proof -
    have "d * (?p / ?T) \<le> 10 ^ 9 * 10 ^ 13" using dr(2) qhi q0 d0 by (intro mult_mono) simp_all
    also have "\<dots> = (10 ^ 22 :: real)" by simp
    finally show ?thesis .
  qed
  have w: "1 / 4 \<le> (1 - ?u)\<^sup>2" and v: "(1 + ?u)\<^sup>2 \<le> 4"
    by (simp_all add: unit_roundoff_def power2_eq_square)
  have "1 / 10 ^ 19 \<le> (1 / 4) * (1 / (2 * 10 ^ 17 :: real))" by simp
  also have "\<dots> \<le> (1 - ?u)\<^sup>2 * (d * (?p / ?T))" using w xlo by (intro mult_mono) simp_all
  also have "\<dots> \<le> binary64 (d * binary64 (?p / ?T))" by (rule sb(1))
  finally have lo: "1 / 10 ^ 19 \<le> binary64 (d * binary64 (?p / ?T))" .
  have "binary64 (d * binary64 (?p / ?T)) \<le> (1 + ?u)\<^sup>2 * (d * (?p / ?T))" by (rule sb(2))
  also have "\<dots> \<le> 4 * 10 ^ 22"
  proof (intro mult_mono v xhi)
    show "0 \<le> d * (?p / ?T)" using d0 q0 by (rule mult_nonneg_nonneg)
  qed simp
  also have "\<dots> \<le> (10 ^ 23 :: real)" by simp
  finally have hi: "binary64 (d * binary64 (?p / ?T)) \<le> 10 ^ 23" .
  show ?thesis using lo hi by simp
qed

subsection \<open>C3: the validation flags\<close>





section \<open>Storage: the line map\<close>

lemma update_fresh: "k \<notin> fst ` set al \<Longrightarrow> AList.update k v al = al @ [(k, v)]"
  by (induction al) auto

lemma delete_filter: "AList.delete k al = filter (\<lambda>p. fst p \<noteq> k) al"
  by (induction al) auto

lemma fold_delete_keys:
  "fold (\<lambda>e m. AList.delete (f e) m) xs m = filter (\<lambda>p. fst p \<notin> f ` set xs) m"
proof (induction xs arbitrary: m)
  case Nil
  then show ?case by simp
next
  case (Cons x xs)
  have "fold (\<lambda>e m. AList.delete (f e) m) (x # xs) m
      = filter (\<lambda>p. fst p \<notin> f ` set xs) (AList.delete (f x) m)"
    by (simp only: fold_simps Cons.IH)
  also have "\<dots> = filter (\<lambda>p. fst p \<notin> f ` set xs) (filter (\<lambda>p. fst p \<noteq> f x) m)"
    by (simp only: delete_filter)
  also have "\<dots> = filter (\<lambda>p. fst p \<notin> f ` set (x # xs)) m"
    unfolding filter_filter by (rule filter_cong) auto
  finally show ?case .
qed

lemma fold_delete_matching:
  "fold (\<lambda>(k, se) m. if P se then AList.delete k m else m) xs m
     = filter (\<lambda>p. fst p \<notin> fst ` {q \<in> set xs. P (snd q)}) m"
proof (induction xs arbitrary: m)
  case Nil
  then show ?case by simp
next
  case (Cons x xs)
  obtain k se where x: "x = (k, se)" by (cases x)
  let ?step = "\<lambda>(k, se) m. if P se then AList.delete k m else m"
  have "fold ?step (x # xs) m
      = filter (\<lambda>p. fst p \<notin> fst ` {q \<in> set xs. P (snd q)}) (?step x m)"
    by (simp only: fold_simps Cons.IH)
  also have "?step x m = filter (\<lambda>p. \<not> (P se \<and> fst p = k)) m"
    by (simp add: x delete_filter)
  also have "filter (\<lambda>p. fst p \<notin> fst ` {q \<in> set xs. P (snd q)}) (filter (\<lambda>p. \<not> (P se \<and> fst p = k)) m)
      = filter (\<lambda>p. fst p \<notin> fst ` {q \<in> set (x # xs). P (snd q)}) m"
    unfolding filter_filter by (rule filter_cong) (force simp: x image_iff)+
  finally show ?case .
qed

lemma toShiftEmployee_simps:
  "se_id (toShiftEmployee e k i) = k"
  "shiftId (toShiftEmployee e k i) = i"
  "digitalTips (toShiftEmployee e k i) = digitalTips e"
  "cashTips (toShiftEmployee e k i) = cashTips e"
  "points (toShiftEmployee e k i) = points e"
  "employeeId (toShiftEmployee e k i) = employeeId e"
  by (simp_all add: toShiftEmployee_def)

lemma storedLines_length: "length (storedLines i c ls) = length ls"
  by (induction ls arbitrary: c) simp_all

lemma storedLines_shiftId: "se \<in> set (storedLines i c ls) \<Longrightarrow> shiftId se = i"
  by (induction ls arbitrary: c) (auto simp: toShiftEmployee_simps)

lemma storedLines_se_id:
  "se \<in> set (storedLines i c ls) \<Longrightarrow> c \<le> se_id se \<and> se_id se < c + int (length ls)"
proof (induction ls arbitrary: c)
  case Nil
  then show ?case by simp
next
  case (Cons e ls)
  then show ?case by (fastforce simp: toShiftEmployee_simps)
qed

lemma storedLines_distinct: "distinct (map se_id (storedLines i c ls))"
proof (induction ls arbitrary: c)
  case Nil
  then show ?case by simp
next
  case (Cons e ls)
  have "c \<notin> se_id ` set (storedLines i (c + 1) ls)"
    using storedLines_se_id [of _ i "c + 1" ls] by force
  then show ?case by (simp add: Cons.IH toShiftEmployee_simps)
qed

lemma saveShiftEmployees_effect:
  assumes "\<forall>k \<in> fst ` set (st_shiftEmployees s). k < currentIds_shiftEmployee s"
  shows "st_shiftEmployees (fst (saveShiftEmployees s i ls acc))
           = st_shiftEmployees s
             @ map (\<lambda>se. (se_id se, se)) (storedLines i (currentIds_shiftEmployee s) ls) \<and>
         currentIds_shiftEmployee (fst (saveShiftEmployees s i ls acc))
           = currentIds_shiftEmployee s + int (length ls) \<and>
         st_shifts (fst (saveShiftEmployees s i ls acc)) = st_shifts s \<and>
         st_employees (fst (saveShiftEmployees s i ls acc)) = st_employees s \<and>
         currentIds_shift (fst (saveShiftEmployees s i ls acc)) = currentIds_shift s"
  using assms
proof (induction ls arbitrary: s acc)
  case Nil
  then show ?case by simp
next
  case (Cons e ls)
  let ?c = "currentIds_shiftEmployee s"
  let ?s' = "s\<lparr>currentIds_shiftEmployee := ?c + 1,
               st_shiftEmployees := AList.update ?c (toShiftEmployee e ?c i) (st_shiftEmployees s)\<rparr>"
  have fresh: "?c \<notin> fst ` set (st_shiftEmployees s)" using Cons.prems by auto
  have upd: "st_shiftEmployees ?s' = st_shiftEmployees s @ [(?c, toShiftEmployee e ?c i)]"
    by (simp add: update_fresh [OF fresh])
  have pre: "\<forall>k \<in> fst ` set (st_shiftEmployees ?s'). k < currentIds_shiftEmployee ?s'"
    unfolding upd using Cons.prems by fastforce
  show ?case
    using Cons.IH [OF pre] upd
    by (simp add: Let_def toShiftEmployee_simps)
qed

lemma lines_inv_keys:
  "lines_inv s \<Longrightarrow> \<forall>k \<in> fst ` set (st_shiftEmployees s). k < currentIds_shiftEmployee s"
  by (auto simp: lines_inv_def list_all_iff)

lemma lines_inv_entry:
  "lines_inv s \<Longrightarrow> (k, se) \<in> set (st_shiftEmployees s) \<Longrightarrow> se_id se = k \<and> k < currentIds_shiftEmployee s"
  by (auto simp: lines_inv_def list_all_iff)

lemma lines_inv_unique:
  "lines_inv s \<Longrightarrow> (k, se) \<in> set (st_shiftEmployees s) \<Longrightarrow> (k, se') \<in> set (st_shiftEmployees s) \<Longrightarrow> se = se'"
  by (auto simp: lines_inv_def dest: eq_key_imp_eq_value)

lemma delete_existing_lines:
  assumes "lines_inv s"
  shows "fold (\<lambda>employee m. AList.delete (se_id employee) m)
           (filter (\<lambda>se. shiftId se = i) (map snd (st_shiftEmployees s))) (st_shiftEmployees s)
         = filter (\<lambda>p. shiftId (snd p) \<noteq> i) (st_shiftEmployees s)"
proof -
  have "(fst p \<notin> se_id ` set (filter (\<lambda>se. shiftId se = i) (map snd (st_shiftEmployees s))))
          = (shiftId (snd p) \<noteq> i)"
    if p: "p \<in> set (st_shiftEmployees s)" for p
  proof -
    obtain k se where pk: "p = (k, se)" by (cases p)
    have id: "se_id se = k" using lines_inv_entry [OF assms] p pk by blast
    show ?thesis
    proof (cases "shiftId se = i")
      case True
      then have "se \<in> set (filter (\<lambda>se. shiftId se = i) (map snd (st_shiftEmployees s)))"
        using p pk by force
      then show ?thesis using True id pk by force
    next
      case False
      have "k \<notin> se_id ` set (filter (\<lambda>se. shiftId se = i) (map snd (st_shiftEmployees s)))"
      proof
        assume "k \<in> se_id ` set (filter (\<lambda>se. shiftId se = i) (map snd (st_shiftEmployees s)))"
        then obtain k' se' where m: "(k', se') \<in> set (st_shiftEmployees s)"
            and s': "shiftId se' = i" and k': "se_id se' = k"
          by auto
        have "k' = k" using lines_inv_entry [OF assms m] k' by simp
        then have "se' = se" using lines_inv_unique [OF assms] m p pk by blast
        then show False using s' False by simp
      qed
      then show ?thesis using False pk by simp
    qed
  qed
  then show ?thesis
    unfolding fold_delete_keys by (intro filter_cong) auto
qed

lemma updateShift_effect:
  assumes inv: "lines_inv s" and found: "getShift s i = Some old"
  shows "\<exists>s' r. updateShift s i data ls = Inr (s', r) \<and>
           shift r = mergeShift old data \<and>
           st_shifts s' = AList.update i (mergeShift old data) (st_shifts s) \<and>
           st_shiftEmployees s'
             = filter (\<lambda>p. shiftId (snd p) \<noteq> i) (st_shiftEmployees s)
               @ map (\<lambda>se. (se_id se, se)) (storedLines i (currentIds_shiftEmployee s) ls) \<and>
           currentIds_shiftEmployee s' = currentIds_shiftEmployee s + int (length ls)"
proof -
  define s2 where "s2 = s\<lparr>st_shifts := AList.update i (mergeShift old data) (st_shifts s),
      st_shiftEmployees := filter (\<lambda>p. shiftId (snd p) \<noteq> i) (st_shiftEmployees s)\<rparr>"
  have m: "map_of (st_shifts s) i = Some old" using found by (simp add: getShift_def)
  have eq: "updateShift s i data ls
      = Inr (fst (saveShiftEmployees s2 i ls []),
             \<lparr>shift = mergeShift old data, results = snd (saveShiftEmployees s2 i ls [])\<rparr>)"
    by (simp add: updateShift_def m Let_def getShiftEmployees_def delete_existing_lines [OF inv] s2_def)
  have pre: "\<forall>k \<in> fst ` set (st_shiftEmployees s2). k < currentIds_shiftEmployee s2"
    using lines_inv_keys [OF inv] by (auto simp: s2_def)
  from saveShiftEmployees_effect [OF pre, of i ls "[]"]
  show ?thesis unfolding eq by (simp add: s2_def)
qed

lemma getShiftEmployees_after_update:
  assumes "st_shiftEmployees s'
             = filter (\<lambda>p. shiftId (snd p) \<noteq> i) es
               @ map (\<lambda>se. (se_id se, se)) (storedLines i c ls)"
  shows "getShiftEmployees s' i = storedLines i c ls"
proof -
  have a: "filter (\<lambda>se. shiftId se = i) (map snd (filter (\<lambda>p. shiftId (snd p) \<noteq> i) es)) = []"
    by (auto simp: filter_empty_conv)
  have b: "filter (\<lambda>se. shiftId se = i) (storedLines i c ls) = storedLines i c ls"
    by (auto simp: filter_id_conv storedLines_shiftId)
  show ?thesis
    by (simp add: getShiftEmployees_def assms a comp_def b)
qed

lemma lines_inv_append:
  assumes d: "distinct (map fst es)"
    and b: "\<forall>p \<in> set es. se_id (snd p) = fst p \<and> fst p < c"
    and e: "st_shiftEmployees s' = es @ map (\<lambda>se. (se_id se, se)) (storedLines i c ls)"
    and n: "currentIds_shiftEmployee s' = c + int (length ls)"
  shows "lines_inv s'"
proof -
  let ?new = "storedLines i c ls"
  have k: "map fst (map (\<lambda>se. (se_id se, se)) ?new) = map se_id ?new"
    by (simp add: comp_def)
  have disj: "fst ` set es \<inter> se_id ` set ?new = {}"
    using b storedLines_se_id [of _ i c ls] by fastforce
  have 1: "distinct (map fst (st_shiftEmployees s'))"
    unfolding e using d disj storedLines_distinct [of i c ls]
    by (simp add: comp_def image_image)
  have 2: "list_all (\<lambda>(k, se). se_id se = k \<and> k < currentIds_shiftEmployee s') (st_shiftEmployees s')"
    unfolding e n list_all_iff using b storedLines_se_id [of _ i c ls] by fastforce
  show ?thesis using 1 2 by (simp add: lines_inv_def)
qed

lemma lines_inv_bounds:
  "lines_inv s \<Longrightarrow> \<forall>p \<in> set (st_shiftEmployees s). se_id (snd p) = fst p \<and> fst p < currentIds_shiftEmployee s"
  by (auto simp: lines_inv_def list_all_iff)

lemma lines_inv_distinct: "lines_inv s \<Longrightarrow> distinct (map fst (st_shiftEmployees s))"
  by (simp add: lines_inv_def)

lemma lines_inv_addShift:
  assumes "lines_inv s"
  shows "lines_inv (fst (addShift s t d ls))"
proof -
  define s1 where "s1 = s\<lparr>currentIds_shift := currentIds_shift s + 1,
      st_shifts := AList.update (currentIds_shift s)
        \<lparr>sh_id = currentIds_shift s, sh_date = in_date d, sh_type = in_type d,
         sh_creditCardTips = in_creditCardTips d, sh_houseTips = in_houseTips d,
         sh_cashTips = in_cashTips d, sh_createdAt = t\<rparr> (st_shifts s)\<rparr>"
  have r: "fst (addShift s t d ls) = fst (saveShiftEmployees s1 (currentIds_shift s) ls [])"
    by (simp add: addShift_def Let_def s1_def)
  have pre: "\<forall>k \<in> fst ` set (st_shiftEmployees s1). k < currentIds_shiftEmployee s1"
    using lines_inv_keys [OF assms] by (simp add: s1_def)
  from saveShiftEmployees_effect [OF pre, of "currentIds_shift s" ls "[]"]
  have e: "st_shiftEmployees (fst (addShift s t d ls))
        = st_shiftEmployees s
          @ map (\<lambda>se. (se_id se, se)) (storedLines (currentIds_shift s) (currentIds_shiftEmployee s) ls)"
    and n: "currentIds_shiftEmployee (fst (addShift s t d ls)) = currentIds_shiftEmployee s + int (length ls)"
    unfolding r by (simp_all add: s1_def)
  show ?thesis
    by (rule lines_inv_append [OF lines_inv_distinct [OF assms] lines_inv_bounds [OF assms] e n])
qed

lemma lines_inv_updateShift:
  assumes "lines_inv s" and "updateShift s i d ls = Inr (s', r)"
  shows "lines_inv s'"
proof -
  from assms(2) obtain old where found: "getShift s i = Some old"
    by (auto simp: updateShift_def getShift_def split: option.splits)
  from updateShift_effect [OF assms(1) found, of d ls] assms(2)
  have e: "st_shiftEmployees s'
             = filter (\<lambda>p. shiftId (snd p) \<noteq> i) (st_shiftEmployees s)
               @ map (\<lambda>se. (se_id se, se)) (storedLines i (currentIds_shiftEmployee s) ls)"
    and n: "currentIds_shiftEmployee s' = currentIds_shiftEmployee s + int (length ls)"
    by auto
  have dd: "distinct (map fst (filter (\<lambda>p. shiftId (snd p) \<noteq> i) (st_shiftEmployees s)))"
    using lines_inv_distinct [OF assms(1)] by (rule distinct_map_filter)
  have bb: "\<forall>p \<in> set (filter (\<lambda>p. shiftId (snd p) \<noteq> i) (st_shiftEmployees s)).
      se_id (snd p) = fst p \<and> fst p < currentIds_shiftEmployee s"
    using lines_inv_bounds [OF assms(1)] by simp
  show ?thesis by (rule lines_inv_append [OF dd bb e n])
qed

lemma lines_inv_deleteShift:
  assumes "lines_inv s"
  shows "lines_inv (deleteShift s i)"
proof -
  let ?keep = "\<lambda>p. fst p \<notin> fst ` {q \<in> set (st_shiftEmployees s). shiftId (snd q) = i}"
  have e: "st_shiftEmployees (deleteShift s i) = filter ?keep (st_shiftEmployees s)"
    and n: "currentIds_shiftEmployee (deleteShift s i) = currentIds_shiftEmployee s"
    by (simp_all add: deleteShift_def Let_def fold_delete_matching)
  have 1: "distinct (map fst (st_shiftEmployees (deleteShift s i)))"
    unfolding e using lines_inv_distinct [OF assms] by (rule distinct_map_filter)
  have 2: "list_all (\<lambda>(k, se). se_id se = k \<and> k < currentIds_shiftEmployee (deleteShift s i))
      (st_shiftEmployees (deleteShift s i))"
    unfolding e n list_all_iff using lines_inv_bounds [OF assms] by auto
  show ?thesis using 1 2 by (simp add: lines_inv_def)
qed

lemma lines_inv_empty: "lines_inv emptyStorage"
  by (simp add: lines_inv_def emptyStorage_def)

lemma lines_inv_addEmployee: "lines_inv s \<Longrightarrow> lines_inv (fst (addEmployee s e))"
  by (simp add: lines_inv_def addEmployee_def Let_def)

lemma saveShiftEmployees_frame:
  "st_shifts (fst (saveShiftEmployees s i ls acc)) = st_shifts s \<and>
   st_employees (fst (saveShiftEmployees s i ls acc)) = st_employees s \<and>
   currentIds_shift (fst (saveShiftEmployees s i ls acc)) = currentIds_shift s"
  by (induction ls arbitrary: s acc) (simp_all add: Let_def)

text \<open>The example storage holds the example shift and satisfies the invariant.\<close>

lemma saved_shift_found: "getShift savedStorage 1 = Some savedShift"
  by code_simp

lemma lines_inv_initial: "lines_inv initialStorage"
  by code_simp

lemma lines_inv_saved: "lines_inv savedStorage"
  by code_simp

text \<open>The stored lines carry the submitted fields, the shift and consecutive identifiers.\<close>

lemma insert_line_eta:
  "\<lparr>employeeId = employeeId e, position = position e, pointValue = pointValue e,
     clockIn = clockIn e, clockOut = clockOut e, hoursWorked = hoursWorked e,
     points = points e, digitalTips = digitalTips e, cashTips = cashTips e\<rparr> = (e :: InsertShiftEmployee)"
  by (cases e) simp

lemma storedLines_submitted:
  "map (\<lambda>se. \<lparr>employeeId = employeeId se, position = position se, pointValue = pointValue se,
            clockIn = clockIn se, clockOut = clockOut se, hoursWorked = hoursWorked se,
            points = points se, digitalTips = digitalTips se, cashTips = cashTips se\<rparr>)
      (storedLines i c ls) = ls"
  by (induction ls arbitrary: c) (simp_all add: toShiftEmployee_def insert_line_eta)

lemma storedLines_shiftIds: "map shiftId (storedLines i c ls) = replicate (length ls) i"
  by (induction ls arbitrary: c) (simp_all add: toShiftEmployee_simps)

lemma storedLines_ids: "map se_id (storedLines i c ls) = [c..c + int (length ls) - 1]"
proof (induction ls arbitrary: c)
  case Nil
  then show ?case by simp
next
  case (Cons e ls)
  have "[c..c + int (length (e # ls)) - 1] = c # [c + 1..c + 1 + int (length ls) - 1]"
    by (subst upto_rec1) simp_all
  then show ?case by (simp add: Cons.IH toShiftEmployee_simps)
qed

section \<open>Storage and routes: claims\<close>

subsection \<open>C4: an update replaces the lines of the shift\<close>

text \<open>
  C4. In every storage state that satisfies the invariant of the line map and holds the
  shift, \<open>updateShift\<close> with a list of lines succeeds, and \<open>getShiftEmployees\<close> then
  returns exactly the submitted lines: as many as were given, in their order, each with
  the nine fields as submitted, the identifier of the shift and a fresh identifier of its
  own, counted up from the counter; no line that the shift had before is returned. The
  number of lines before the update plays no part.
\<close>

theorem update_replaces_lines:
  assumes "lines_inv s" and "getShift s i = Some old"
  shows "\<exists>s' r. updateShift s i data ls = Inr (s', r) \<and>
           map (\<lambda>se. \<lparr>employeeId = employeeId se, position = position se,
                        pointValue = pointValue se, clockIn = clockIn se,
                        clockOut = clockOut se, hoursWorked = hoursWorked se,
                        points = points se, digitalTips = digitalTips se,
                        cashTips = cashTips se\<rparr>) (getShiftEmployees s' i) = ls \<and>
           map shiftId (getShiftEmployees s' i) = replicate (length ls) i \<and>
           map se_id (getShiftEmployees s' i)
             = [currentIds_shiftEmployee s..currentIds_shiftEmployee s + int (length ls) - 1] \<and>
           length (getShiftEmployees s' i) = length ls \<and>
           set (getShiftEmployees s' i) \<inter> set (getShiftEmployees s i) = {}"
proof -
  from updateShift_effect [OF assms, of data ls]
  obtain s' r where u: "updateShift s i data ls = Inr (s', r)"
    and l: "st_shiftEmployees s'
             = filter (\<lambda>p. shiftId (snd p) \<noteq> i) (st_shiftEmployees s)
               @ map (\<lambda>se. (se_id se, se)) (storedLines i (currentIds_shiftEmployee s) ls)"
    by blast
  have g: "getShiftEmployees s' i = storedLines i (currentIds_shiftEmployee s) ls"
    by (rule getShiftEmployees_after_update [OF l])
  have d: "set (getShiftEmployees s' i) \<inter> set (getShiftEmployees s i) = {}"
  proof -
    have "se_id se < currentIds_shiftEmployee s" if "se \<in> set (getShiftEmployees s i)" for se
    proof -
      from that obtain k where "(k, se) \<in> set (st_shiftEmployees s)"
        by (auto simp: getShiftEmployees_def)
      then show ?thesis using lines_inv_entry [OF assms(1)] by auto
    qed
    moreover have "currentIds_shiftEmployee s \<le> se_id se" if "se \<in> set (getShiftEmployees s' i)" for se
      using that storedLines_se_id unfolding g by blast
    ultimately show ?thesis by fastforce
  qed
  have "map (\<lambda>se. \<lparr>employeeId = employeeId se, position = position se,
                        pointValue = pointValue se, clockIn = clockIn se,
                        clockOut = clockOut se, hoursWorked = hoursWorked se,
                        points = points se, digitalTips = digitalTips se,
                        cashTips = cashTips se\<rparr>) (getShiftEmployees s' i) = ls"
    unfolding g by (rule storedLines_submitted)
  moreover have "map shiftId (getShiftEmployees s' i) = replicate (length ls) i"
    unfolding g by (rule storedLines_shiftIds)
  moreover have "map se_id (getShiftEmployees s' i)
             = [currentIds_shiftEmployee s..currentIds_shiftEmployee s + int (length ls) - 1]"
    unfolding g by (rule storedLines_ids)
  moreover have "length (getShiftEmployees s' i) = length ls"
    unfolding g by (rule storedLines_length)
  ultimately show ?thesis using u d by blast
qed

theorem update_replaces_lines_witness:
  "lines_inv savedStorage \<and> getShift savedStorage 1 = Some savedShift \<and>
   length (getShiftEmployees savedStorage 1) = 2 \<and>
   (\<exists>s' r. updateShift savedStorage 1 exampleUpdate [allocatedLine 4 2 80 10] = Inr (s', r) \<and>
      map (\<lambda>se. \<lparr>employeeId = employeeId se, position = position se,
                   pointValue = pointValue se, clockIn = clockIn se,
                   clockOut = clockOut se, hoursWorked = hoursWorked se,
                   points = points se, digitalTips = digitalTips se,
                   cashTips = cashTips se\<rparr>) (getShiftEmployees s' 1)
        = [allocatedLine 4 2 80 10] \<and>
      map shiftId (getShiftEmployees s' 1) = replicate (length [allocatedLine 4 2 80 10]) 1 \<and>
      map se_id (getShiftEmployees s' 1)
        = [currentIds_shiftEmployee savedStorage..
           currentIds_shiftEmployee savedStorage + int (length [allocatedLine 4 2 80 10]) - 1] \<and>
      length (getShiftEmployees s' 1) = length [allocatedLine 4 2 80 10] \<and>
      set (getShiftEmployees s' 1) \<inter> set (getShiftEmployees savedStorage 1) = {})"
proof -
  have n: "length (getShiftEmployees savedStorage 1) = 2" by code_simp
  note t = update_replaces_lines [OF lines_inv_saved saved_shift_found,
      of exampleUpdate "[allocatedLine 4 2 80 10]"]
  show ?thesis by (rule conjI [OF lines_inv_saved conjI [OF saved_shift_found conjI [OF n t]]])
qed

subsection \<open>The update route\<close>

text \<open>
  Every update the route performs stores the lines it receives with both amounts 0.
\<close>

lemma storedLines_amounts:
  "se \<in> set (storedLines i c ls) \<Longrightarrow>
     \<exists>e \<in> set ls. digitalTips se = digitalTips e \<and> cashTips se = cashTips e"
  by (induction ls arbitrary: c) (auto simp: toShiftEmployee_simps)

lemma put_route_stores_zero:
  assumes "lines_inv s" and "getShift s i = Some old"
  shows "\<exists>s' r. putShift s i body = (s', Inr r) \<and>
           length (getShiftEmployees s' i) = length (body_employees body) \<and>
           list_all (\<lambda>se. digitalTips se = 0 \<and> cashTips se = 0) (getShiftEmployees s' i)"
proof -
  define shiftData where "shiftData =
     \<lparr>p_date = Some (in_date (body_shift body)), p_type = Some (in_type (body_shift body)),
      p_creditCardTips = Some (in_creditCardTips (body_shift body)),
      p_houseTips = Some (in_houseTips (body_shift body)),
      p_cashTips = Some (in_cashTips (body_shift body))\<rparr>"
  define zeroed :: "InsertShiftEmployee list" where "zeroed = map (\<lambda>employee.
      \<lparr>employeeId = employeeId employee, position = position employee,
       pointValue = pointValue employee, clockIn = clockIn employee,
       clockOut = clockOut employee, hoursWorked = hoursWorked employee,
       points = points employee, digitalTips = 0, cashTips = 0\<rparr>) (body_employees body)"
  from updateShift_effect [OF assms, of shiftData zeroed]
  obtain s' r where u: "updateShift s i shiftData zeroed = Inr (s', r)"
    and l: "st_shiftEmployees s'
             = filter (\<lambda>p. shiftId (snd p) \<noteq> i) (st_shiftEmployees s)
               @ map (\<lambda>se. (se_id se, se)) (storedLines i (currentIds_shiftEmployee s) zeroed)"
    by blast
  have p: "putShift s i body = (s', Inr r)"
    using u by (simp add: putShift_def assms(2) Let_def shiftData_def zeroed_def)
  have g: "getShiftEmployees s' i = storedLines i (currentIds_shiftEmployee s) zeroed"
    by (rule getShiftEmployees_after_update [OF l])
  have z: "digitalTips e = 0 \<and> cashTips e = 0" if "e \<in> set zeroed" for e
    using that by (auto simp: zeroed_def)
  have "digitalTips se = 0 \<and> cashTips se = 0" if "se \<in> set (getShiftEmployees s' i)" for se
    using storedLines_amounts that z unfolding g by metis
  then show ?thesis
    using p g by (auto simp: storedLines_length zeroed_def list_all_iff)
qed

subsection \<open>C5: the amounts an update stores\<close>

text \<open>
  C5 does not hold of the code. The update route sets \<open>digitalTips\<close> and \<open>cashTips\<close> of
  every line to 0 (its comment says the storage layer recalculates them), and
  \<open>updateShift\<close> stores the lines as it receives them. Updating the example shift (pools
  of 100 and 20) with lines of 3 and 1 points stores 0 and 0 for both lines, where the
  allocation is 75 and 25.
\<close>

theorem update_route_stores_zero_tips:
  "map digitalTips (getShiftEmployees
      (fst (putShift savedStorage 1
         \<lparr>body_shift = exampleShift, body_employees = [exampleLine 3 3, exampleLine 15 1]\<rparr>)) 1)
     = [0, 0] \<and>
   map cashTips (getShiftEmployees
      (fst (putShift savedStorage 1
         \<lparr>body_shift = exampleShift, body_employees = [exampleLine 3 3, exampleLine 15 1]\<rparr>)) 1)
     = [0, 0] \<and>
   map res_digitalTips (out_results (calculateEmployeeTips binary64
      [exampleLine 3 3, exampleLine 15 1] 100 20)) = [75, 25]"
  by code_simp

subsection \<open>C9: deleting a shift\<close>

text \<open>
  C9. After \<open>deleteShift\<close> of an identifier, \<open>getShift\<close> of it returns nothing and
  \<open>getShiftEmployees\<close> of it returns the empty list.
\<close>

theorem delete_removes_shift_and_lines:
  "getShift (deleteShift s i) i = None \<and> getShiftEmployees (deleteShift s i) i = []"
proof -
  have "getShift (deleteShift s i) i = None"
    by (simp add: deleteShift_def getShift_def Let_def delete_conv')
  moreover have "getShiftEmployees (deleteShift s i) i = []"
    unfolding deleteShift_def getShiftEmployees_def Let_def
    by (simp add: fold_delete_matching filter_empty_conv) force
  ultimately show ?thesis by simp
qed

theorem delete_removes_shift_and_lines_witness:
  "getShift savedStorage 1 = Some savedShift \<and>
   length (getShiftEmployees savedStorage 1) = 2 \<and>
   getShift (deleteShift savedStorage 1) 1 = None \<and>
   getShiftEmployees (deleteShift savedStorage 1) 1 = []"
proof -
  have n: "length (getShiftEmployees savedStorage 1) = 2" by code_simp
  from delete_removes_shift_and_lines [of savedStorage 1]
  show ?thesis using saved_shift_found n by blast
qed

subsection \<open>C10: an update keeps the identifier and the creation time\<close>

text \<open>
  C10. For every shift the storage holds, \<open>updateShift\<close> succeeds and stores a record
  with the identifier and the \<open>createdAt\<close> timestamp of the old one; each of date, type
  and the three pools is the value the update supplies, or the old value when the update
  does not supply it.
\<close>

theorem update_keeps_id_and_createdAt:
  assumes "getShift s i = Some old"
  shows "\<exists>s' r. updateShift s i data ls = Inr (s', r) \<and>
           getShift s' i = Some (shift r) \<and>
           sh_id (shift r) = sh_id old \<and>
           sh_createdAt (shift r) = sh_createdAt old \<and>
           sh_date (shift r) = (case p_date data of None \<Rightarrow> sh_date old | Some v \<Rightarrow> v) \<and>
           sh_type (shift r) = (case p_type data of None \<Rightarrow> sh_type old | Some v \<Rightarrow> v) \<and>
           sh_creditCardTips (shift r)
             = (case p_creditCardTips data of None \<Rightarrow> sh_creditCardTips old | Some v \<Rightarrow> v) \<and>
           sh_houseTips (shift r)
             = (case p_houseTips data of None \<Rightarrow> sh_houseTips old | Some v \<Rightarrow> v) \<and>
           sh_cashTips (shift r)
             = (case p_cashTips data of None \<Rightarrow> sh_cashTips old | Some v \<Rightarrow> v)"
proof -
  have m: "map_of (st_shifts s) i = Some old" using assms by (simp add: getShift_def)
  show ?thesis
    by (simp add: updateShift_def m Let_def getShift_def saveShiftEmployees_frame
        update_conv' mergeShift_def)
qed

theorem update_keeps_id_and_createdAt_witness:
  "getShift savedStorage 1 = Some savedShift \<and>
   (\<exists>s' r. updateShift savedStorage 1 exampleUpdate [allocatedLine 4 2 80 10] = Inr (s', r) \<and>
       getShift s' 1 = Some (shift r) \<and>
       sh_id (shift r) = sh_id savedShift \<and>
       sh_createdAt (shift r) = sh_createdAt savedShift)"
proof -
  from update_keeps_id_and_createdAt [OF saved_shift_found, of exampleUpdate "[allocatedLine 4 2 80 10]"]
  show ?thesis using saved_shift_found by blast
qed

end
